theory Spec2Isabelle
  imports Complex_Main "HOL-Library.Word"
begin

section \<open>Resource quantities and resource lists\<close>

text \<open>
  The package \<^verbatim>\<open>api\<close> (file \<^verbatim>\<open>api/interface.go\<close>) computes with the Kubernetes types
  \<^verbatim>\<open>resource.Quantity\<close> and \<^verbatim>\<open>core.ResourceList\<close>. Both belong to libraries outside the
  repository, so only what \<^verbatim>\<open>interface.go\<close> calls is represented.

  A quantity is an exact decimal number of arbitrary size; it is represented by the
  rational number it denotes. Its \<^verbatim>\<open>Format\<close> field only selects the notation used for
  printing, hence \<^verbatim>\<open>resource.Quantity{Format: f}\<close> is the number zero for every \<^verbatim>\<open>f\<close>,
  \<^verbatim>\<open>q.Add(y)\<close> is addition, \<^verbatim>\<open>q.IsZero()\<close> tests for zero and \<^verbatim>\<open>q.Cmp(y)\<close> yields the
  sign of the difference.
\<close>

type_synonym Quantity = rat

definition IsZero :: "Quantity \<Rightarrow> bool" where
  "IsZero q = (q = 0)"

definition Cmp :: "Quantity \<Rightarrow> Quantity \<Rightarrow> int" where
  "Cmp q y = (if q < y then - 1 else if q = y then 0 else 1)"

text \<open>
  \<^verbatim>\<open>q.MilliValue()\<close> is an \<^verbatim>\<open>int64\<close>: the quantity in thousandths, rounded away from
  zero, that is up for a positive quantity (\<^verbatim>\<open>100u\<close> gives 1) and down for a negative one
  (\<^verbatim>\<open>-100u\<close> gives -1). When the rounded number does not fit an \<^verbatim>\<open>int64\<close>, the library's
  answer depends on its internal representation of \<open>q\<close>, which a rational number does
  not record. Every statement further down that reads \<open>MilliValue\<close> therefore names its
  range: \<open>milliRange\<close>, the non-negative quantities whose milli-value fits an \<^verbatim>\<open>int64\<close>, or
  the narrower \<open>milliExact\<close>. \<^verbatim>\<open>n.SetMilli(v)\<close> makes \<open>n\<close> the quantity of \<open>v\<close> thousandths.
\<close>

definition MilliValue :: "Quantity \<Rightarrow> 64 word" where
  "MilliValue q = word_of_int (if q < 0 then \<lfloor>q * 1000\<rfloor> else \<lceil>q * 1000\<rceil>)"

definition SetMilli :: "64 word \<Rightarrow> Quantity" where
  "SetMilli v = of_int (sint v) / 1000"

type_synonym ResourceName = string

abbreviation ResourceCPU :: ResourceName where
  "ResourceCPU \<equiv> ''cpu''"

abbreviation ResourceMemory :: ResourceName where
  "ResourceMemory \<equiv> ''memory''"

abbreviation ResourceStorage :: ResourceName where
  "ResourceStorage \<equiv> ''storage''"

text \<open>
  A \<^verbatim>\<open>core.ResourceList\<close> is a Go map from resource names to quantities. A Go map
  variable may be \<^verbatim>\<open>nil\<close>: reading a \<^verbatim>\<open>nil\<close> map finds no key, assigning to one of its
  entries panics. \<open>None\<close> is the \<^verbatim>\<open>nil\<close> map.
\<close>

type_synonym ResourceList = "(ResourceName \<rightharpoonup> Quantity) option"

definition Name :: "ResourceList \<Rightarrow> ResourceName \<Rightarrow> Quantity" where
  \<comment> \<open>\<^verbatim>\<open>rl.Name(name, defaultFormat)\<close>: the entry, or a zero quantity when there is none\<close>
  "Name rl name =
     (case rl of
        None \<Rightarrow> 0
      | Some m \<Rightarrow> (case m name of Some val \<Rightarrow> val | None \<Rightarrow> 0))"

definition Cpu :: "ResourceList \<Rightarrow> Quantity" where
  "Cpu rl = Name rl ResourceCPU"

definition Memory :: "ResourceList \<Rightarrow> Quantity" where
  "Memory rl = Name rl ResourceMemory"

definition Storage :: "ResourceList \<Rightarrow> Quantity" where
  "Storage rl = Name rl ResourceStorage"

definition entry :: "ResourceList \<Rightarrow> ResourceName \<Rightarrow> Quantity option" where
  \<comment> \<open>the Go read \<^verbatim>\<open>val, ok := rl[name]\<close>\<close>
  "entry rl name = (case rl of None \<Rightarrow> None | Some m \<Rightarrow> m name)"

section \<open>Pod roles\<close>

text \<open>
  \<^verbatim>\<open>PodRole\<close> is a string type and \<^verbatim>\<open>ReplicaList\<close> is \<^verbatim>\<open>map[PodRole]int64\<close>. The maps
  keyed by role are only read by the functions below, so a \<^verbatim>\<open>nil\<close> map and an empty
  one are not told apart.
\<close>

type_synonym PodRole = string

type_synonym ReplicaList = "PodRole \<rightharpoonup> 64 word"

type_synonym RoleResourceList = "PodRole \<rightharpoonup> ResourceList"

definition InitPodRole :: PodRole where
  \<comment> \<open>Modelled from the spec: the constant \<^verbatim>\<open>InitPodRole\<close> is declared in a file of package
      \<^verbatim>\<open>api\<close> that is not among the sources; the spec names the reserved role \<^verbatim>\<open>init\<close>.\<close>
  "InitPodRole = ''init''"

definition replicasAt :: "ReplicaList \<Rightarrow> PodRole \<Rightarrow> 64 word" where
  \<comment> \<open>the Go read \<^verbatim>\<open>replicas[role]\<close>: zero for a missing key\<close>
  "replicasAt replicas role = (case replicas role of None \<Rightarrow> 0 | Some n \<Rightarrow> n)"

definition resourcesAt :: "RoleResourceList \<Rightarrow> PodRole \<Rightarrow> ResourceList" where
  \<comment> \<open>the Go read \<^verbatim>\<open>rr[role]\<close>: the \<^verbatim>\<open>nil\<close> list for a missing key\<close>
  "resourcesAt rr role = (case rr role of None \<Rightarrow> None | Some rl \<Rightarrow> rl)"

section \<open>Arithmetic on resource lists\<close>

fun addRoles ::
  "RoleResourceList \<Rightarrow> PodRole list \<Rightarrow> Quantity \<times> Quantity \<times> Quantity \<Rightarrow>
   Quantity \<times> Quantity \<times> Quantity" where
  \<comment> \<open>the \<^verbatim>\<open>for _, role := range roles\<close> loop of \<^verbatim>\<open>ResourceListForRoles\<close>\<close>
  "addRoles rr [] (cpu, memory, storage) = (cpu, memory, storage)"
| "addRoles rr (role # roles) (cpu, memory, storage) =
     (let rl = resourcesAt rr role
      in addRoles rr roles (cpu + Cpu rl, memory + Memory rl, storage + Storage rl))"

definition ResourceListForRoles :: "RoleResourceList \<Rightarrow> PodRole list \<Rightarrow> ResourceList" where
  "ResourceListForRoles rr roles =
     (case addRoles rr roles (0, 0, 0) of (cpu, memory, storage) \<Rightarrow>
        let result = Map.empty;
            result = (if \<not> IsZero cpu then result(ResourceCPU \<mapsto> cpu) else result);
            result = (if \<not> IsZero memory then result(ResourceMemory \<mapsto> memory) else result);
            result = (if \<not> IsZero storage then result(ResourceStorage \<mapsto> storage) else result)
        in Some result)"

definition AddResourceList :: "ResourceList \<Rightarrow> ResourceList \<Rightarrow> ResourceList" where
  "AddResourceList x y =
     (let result = Map.empty;
          cpu = 0 + Cpu x + Cpu y;
          result = (if \<not> IsZero cpu then result(ResourceCPU \<mapsto> cpu) else result);
          memory = 0 + Memory x + Memory y;
          result = (if \<not> IsZero memory then result(ResourceMemory \<mapsto> memory) else result);
          storage = 0 + Storage x + Storage y;
          result = (if \<not> IsZero storage then result(ResourceStorage \<mapsto> storage) else result)
      in Some result)"

definition MulResourceList :: "ResourceList \<Rightarrow> 64 word \<Rightarrow> ResourceList" where
  "MulResourceList x multiplier =
     (let result = Map.empty;
          q = Cpu x;
          result = (if \<not> IsZero q
                    then result(ResourceCPU \<mapsto> SetMilli (MilliValue q * multiplier))
                    else result);
          q = Memory x;
          result = (if \<not> IsZero q
                    then result(ResourceMemory \<mapsto> SetMilli (MilliValue q * multiplier))
                    else result);
          q = Storage x;
          result = (if \<not> IsZero q
                    then result(ResourceStorage \<mapsto> SetMilli (MilliValue q * multiplier))
                    else result)
      in Some result)"

definition MaxResourceList :: "ResourceList \<Rightarrow> ResourceList \<Rightarrow> ResourceList" where
  "MaxResourceList x y =
     (let result = Map.empty;
          xCPU = Cpu x; yCPU = Cpu y;
          q = (if Cmp xCPU yCPU \<ge> 0 then xCPU else yCPU);
          result = (if \<not> IsZero q then result(ResourceCPU \<mapsto> q) else result);
          xMemory = Memory x; yMemory = Memory y;
          q = (if Cmp xMemory yMemory \<ge> 0 then xMemory else yMemory);
          result = (if \<not> IsZero q then result(ResourceMemory \<mapsto> q) else result);
          xStorage = Storage x; yStorage = Storage y;
          q = (if Cmp xStorage yStorage \<ge> 0 then xStorage else yStorage);
          result = (if \<not> IsZero q then result(ResourceStorage \<mapsto> q) else result)
      in Some result)"

section \<open>Workload documents\<close>

text \<open>
  A document is the tree \<^verbatim>\<open>map[string]interface{}\<close> that a JSON or YAML decoder
  produces: \<^verbatim>\<open>nil\<close>, booleans, \<^verbatim>\<open>int64\<close> numbers, strings, maps and slices.
  Floating-point leaves are left out. A map is written as the list of its key/value
  pairs, so that a converter can range over it; the Go read \<^verbatim>\<open>m[field]\<close> is
  \<open>map_of m field\<close>.
\<close>

datatype val =
    VNil
  | VBool bool
  | VInt "64 word"
  | VString string
  | VMap "(string \<times> val) list"
  | VSlice "val list"

type_synonym obj = "(string \<times> val) list"

text \<open>
  Go errors are values. \<open>AccessorError path v\<close> is the message
  \<^verbatim>\<open>"<path> accessor error: <v> is of the type <T>, expected ..."\<close>, \<open>ConvertError\<close> an
  error reported by the unstructured converter, and \<open>FailedToParse what e\<close> the
  wrapping \<^verbatim>\<open>fmt.Errorf("failed to parse <what> %#v: %w", ..., e)\<close>.
\<close>

datatype error =
    AccessorError "string list" val
  | ConvertError string
  | FailedToParse string error

text \<open>
  A Go call either returns its results or panics. The panics that \<^verbatim>\<open>interface.go\<close>
  can raise are a failed type assertion \<^verbatim>\<open>val.(T)\<close> without the \<^verbatim>\<open>ok\<close> result, an
  assignment to an entry of a \<^verbatim>\<open>nil\<close> map and a call of a \<^verbatim>\<open>nil\<close> function value.
\<close>

datatype panic = InterfaceConversion | AssignmentToNilMap | NilFunctionCall

datatype 'a outcome = Panic panic | Return 'a

text \<open>
  \<^verbatim>\<open>unstructured.NestedFieldNoCopy\<close> of \<^verbatim>\<open>k8s.io/apimachinery\<close> walks the document
  along the fields and returns \<^verbatim>\<open>(val, found, err)\<close>:
  \<^verbatim>\<open>
  var val interface{} = obj
  for i, field := range fields {
      if val == nil { return nil, false, nil }
      if m, ok := val.(map[string]interface{}); ok {
          val, ok = m[field]
          if !ok { return nil, false, nil }
      } else {
          return nil, false, fmt.Errorf("%v accessor error: ...", jsonPath(fields[:i+1]), val, val)
      }
  }
  return val, true, nil
  \<close>
  \<open>nestedField passed v fields\<close> is the loop at value \<open>v\<close>, with the fields already passed
  in \<open>passed\<close>.
\<close>

fun nestedField :: "string list \<Rightarrow> val \<Rightarrow> string list \<Rightarrow> val \<times> bool \<times> error option" where
  "nestedField passed v [] = (v, True, None)"
| "nestedField passed v (field # fields) =
     (case v of
        VNil \<Rightarrow> (VNil, False, None)
      | VMap m \<Rightarrow>
          (case map_of m field of
             None \<Rightarrow> (VNil, False, None)
           | Some v' \<Rightarrow> nestedField (passed @ [field]) v' fields)
      | _ \<Rightarrow> (VNil, False, Some (AccessorError (passed @ [field]) v)))"

definition NestedFieldNoCopy :: "obj \<Rightarrow> string list \<Rightarrow> val \<times> bool \<times> error option" where
  "NestedFieldNoCopy obj fields = nestedField [] (VMap obj) fields"

section \<open>Decoded shapes\<close>

text \<open>
  The records keep the fields that \<^verbatim>\<open>interface.go\<close> reads. \<^verbatim>\<open>Container\<close> and
  \<^verbatim>\<open>AppNode\<close> are declared in \<^verbatim>\<open>interface.go\<close>; \<^verbatim>\<open>core.ResourceRequirements\<close>,
  \<^verbatim>\<open>core.PersistentVolumeClaimSpec\<close>, \<^verbatim>\<open>core.PodSpec\<close> and \<^verbatim>\<open>ofst.PodTemplateSpec\<close> are
  library types.
\<close>

record ResourceRequirements =
  Limits :: ResourceList
  Requests :: ResourceList

record Container =
  Resources :: ResourceRequirements

record PersistentVolumeClaimSpec =
  ClaimResources :: ResourceRequirements

record PodSpec =
  PodResources :: ResourceRequirements

record PodTemplateSpec =
  Spec :: PodSpec

record AppNode =
  Replicas :: "64 word option"
  PodTemplate :: PodTemplateSpec
  StorageClaim :: PersistentVolumeClaimSpec

definition ResourceLimits :: "ResourceRequirements \<Rightarrow> ResourceList" where
  "ResourceLimits rr = Limits rr"

definition ResourceRequests :: "ResourceRequirements \<Rightarrow> ResourceList" where
  "ResourceRequests rr = Requests rr"

section \<open>Extraction from a document\<close>

text \<open>
  \<^verbatim>\<open>runtime.DefaultUnstructuredConverter.FromUnstructured(m, &target)\<close> is a library
  call; the extraction functions take it as their first argument \<open>FromUnstructured\<close>,
  a function from the map to an error or the decoded target.
\<close>

fun aggregateContainers ::
  "(obj \<Rightarrow> error + Container) \<Rightarrow> (ResourceRequirements \<Rightarrow> ResourceList) \<Rightarrow>
   (ResourceList \<Rightarrow> ResourceList \<Rightarrow> ResourceList) \<Rightarrow> val list \<Rightarrow> ResourceList \<Rightarrow>
   ResourceList \<times> error option" where
  \<comment> \<open>the \<^verbatim>\<open>for i := range containers\<close> loop of \<^verbatim>\<open>AggregateContainerResources\<close>\<close>
  "aggregateContainers FromUnstructured fn aggregate [] result = (result, None)"
| "aggregateContainers FromUnstructured fn aggregate (VMap container # containers) result =
     (case FromUnstructured container of
        Inl err \<Rightarrow> (None, Some (FailedToParse ''container'' err))
      | Inr c \<Rightarrow>
          aggregateContainers FromUnstructured fn aggregate containers
            (aggregate result (fn (Resources c))))"
| "aggregateContainers FromUnstructured fn aggregate (_ # containers) result =
     aggregateContainers FromUnstructured fn aggregate containers result"

definition AggregateContainerResources ::
  "(obj \<Rightarrow> error + Container) \<Rightarrow> obj \<Rightarrow> (ResourceRequirements \<Rightarrow> ResourceList) \<Rightarrow>
   (ResourceList \<Rightarrow> ResourceList \<Rightarrow> ResourceList) \<Rightarrow> string list \<Rightarrow>
   ResourceList \<times> error option" where
  "AggregateContainerResources FromUnstructured obj fn aggregate fields' =
     (case NestedFieldNoCopy obj fields' of (val, found, err) \<Rightarrow>
        if \<not> found \<or> err \<noteq> None then (None, err)
        else (case val of
                VSlice containers \<Rightarrow>
                  aggregateContainers FromUnstructured fn aggregate containers (Some Map.empty)
              | _ \<Rightarrow> (None, Some (AccessorError fields' val))))"

definition ContainerResources ::
  "(obj \<Rightarrow> error + Container) \<Rightarrow> obj \<Rightarrow> (ResourceRequirements \<Rightarrow> ResourceList) \<Rightarrow>
   string list \<Rightarrow> (ResourceList \<times> error option) outcome" where
  "ContainerResources FromUnstructured obj fn fields' =
     (case NestedFieldNoCopy obj fields' of (val, found, err) \<Rightarrow>
        if \<not> found \<or> err \<noteq> None then Return (None, err)
        else (case val of
                VMap m \<Rightarrow>
                  (case FromUnstructured m of
                     Inl err \<Rightarrow> Return (None, Some (FailedToParse ''container'' err))
                   | Inr container \<Rightarrow> Return (fn (Resources container), None))
              | _ \<Rightarrow> Panic InterfaceConversion))"

definition StorageResources ::
  "(obj \<Rightarrow> error + PersistentVolumeClaimSpec) \<Rightarrow> obj \<Rightarrow>
   (ResourceRequirements \<Rightarrow> ResourceList) \<Rightarrow> string list \<Rightarrow>
   (ResourceList \<times> error option) outcome" where
  "StorageResources FromUnstructured obj fn fields' =
     (case NestedFieldNoCopy obj fields' of (val, found, err) \<Rightarrow>
        if \<not> found \<or> err \<noteq> None then Return (None, err)
        else (case val of
                VMap m \<Rightarrow>
                  (case FromUnstructured m of
                     Inl err \<Rightarrow> Return (None, Some (FailedToParse ''storage'' err))
                   | Inr storage \<Rightarrow> Return (fn (ClaimResources storage), None))
              | _ \<Rightarrow> Panic InterfaceConversion))"

definition AppNodeResources ::
  "(obj \<Rightarrow> error + AppNode) \<Rightarrow> obj \<Rightarrow> (ResourceRequirements \<Rightarrow> ResourceList) \<Rightarrow>
   string list \<Rightarrow> (ResourceList \<times> 64 word \<times> error option) outcome" where
  "AppNodeResources FromUnstructured obj fn fields' =
     (case NestedFieldNoCopy obj fields' of (val, found, err) \<Rightarrow>
        if \<not> found \<or> err \<noteq> None then Return (None, 0, err)
        else (case val of
                VMap m \<Rightarrow>
                  (case FromUnstructured m of
                     Inl err \<Rightarrow> Return (None, 0, Some (FailedToParse ''node'' err))
                   | Inr node \<Rightarrow>
                       let replicas = (case Replicas node of None \<Rightarrow> 1 | Some n \<Rightarrow> n);
                           rr = fn (PodResources (Spec (PodTemplate node)));
                           sr = fn (ClaimResources (StorageClaim node))
                       in (case rr of
                             None \<Rightarrow> Panic AssignmentToNilMap
                           | Some entries \<Rightarrow>
                               Return (Some (entries(ResourceStorage \<mapsto> Storage sr)),
                                       replicas, None)))
              | _ \<Rightarrow> Panic InterfaceConversion))"

section \<open>The default adapter\<close>

text \<open>
  \<^verbatim>\<open>ResourceCalculatorFuncs\<close> holds the role lists and the four functions of a plugin.
  A function field may be \<^verbatim>\<open>nil\<close> (\<open>None\<close>), and a plugin function may itself panic.
\<close>

record ResourceCalculatorFuncs =
  AppRoles :: "PodRole list"
  RuntimeRoles :: "PodRole list"
  RoleReplicasFn :: "(obj \<Rightarrow> (ReplicaList \<times> error option) outcome) option"
  ModeFn :: "(obj \<Rightarrow> (string \<times> error option) outcome) option"
  RoleResourceLimitsFn :: "(obj \<Rightarrow> (RoleResourceList \<times> error option) outcome) option"
  RoleResourceRequestsFn :: "(obj \<Rightarrow> (RoleResourceList \<times> error option) outcome) option"

definition RoleReplicas ::
  "ResourceCalculatorFuncs \<Rightarrow> obj \<Rightarrow> (ReplicaList \<times> error option) outcome" where
  "RoleReplicas c obj =
     (case RoleReplicasFn c of None \<Rightarrow> Panic NilFunctionCall | Some f \<Rightarrow> f obj)"

definition Mode :: "ResourceCalculatorFuncs \<Rightarrow> obj \<Rightarrow> (string \<times> error option) outcome" where
  "Mode c obj = (case ModeFn c of Some f \<Rightarrow> f obj | None \<Rightarrow> Return ([], None))"

definition RoleResourceLimits ::
  "ResourceCalculatorFuncs \<Rightarrow> obj \<Rightarrow> (RoleResourceList \<times> error option) outcome" where
  "RoleResourceLimits c obj =
     (case RoleResourceLimitsFn c of None \<Rightarrow> Panic NilFunctionCall | Some f \<Rightarrow> f obj)"

definition RoleResourceRequests ::
  "ResourceCalculatorFuncs \<Rightarrow> obj \<Rightarrow> (RoleResourceList \<times> error option) outcome" where
  "RoleResourceRequests c obj =
     (case RoleResourceRequestsFn c of None \<Rightarrow> Panic NilFunctionCall | Some f \<Rightarrow> f obj)"

fun countRoles :: "ReplicaList \<Rightarrow> PodRole list \<Rightarrow> 64 word \<Rightarrow> 64 word" where
  \<comment> \<open>the \<^verbatim>\<open>for _, role := range c.AppRoles\<close> loop of \<^verbatim>\<open>Replicas\<close>; \<^verbatim>\<open>cnt\<close> is an \<^verbatim>\<open>int64\<close>\<close>
  "countRoles replicas [] cnt = cnt"
| "countRoles replicas (role # roles) cnt =
     countRoles replicas roles (cnt + replicasAt replicas role)"

definition ReplicasTotal ::
  "ResourceCalculatorFuncs \<Rightarrow> obj \<Rightarrow> (64 word \<times> error option) outcome" where
  \<comment> \<open>the method \<^verbatim>\<open>Replicas\<close>; the name \<open>Replicas\<close> is taken by the field of \<open>AppNode\<close>\<close>
  "ReplicasTotal c obj =
     (case RoleReplicas c obj of
        Panic p \<Rightarrow> Panic p
      | Return (replicas, err) \<Rightarrow>
          if err \<noteq> None then Return (0, err)
          else Return (countRoles replicas (AppRoles c) 0, None))"

definition TotalResourceLimits ::
  "ResourceCalculatorFuncs \<Rightarrow> obj \<Rightarrow> (ResourceList \<times> error option) outcome" where
  "TotalResourceLimits c obj =
     (case RoleResourceLimits c obj of
        Panic p \<Rightarrow> Panic p
      | Return (rr, err) \<Rightarrow>
          if err \<noteq> None then Return (None, err)
          else Return (MaxResourceList
                         (ResourceListForRoles rr (RuntimeRoles c))
                         (ResourceListForRoles rr [InitPodRole]), None))"

definition TotalResourceRequests ::
  "ResourceCalculatorFuncs \<Rightarrow> obj \<Rightarrow> (ResourceList \<times> error option) outcome" where
  "TotalResourceRequests c obj =
     (case RoleResourceRequests c obj of
        Panic p \<Rightarrow> Panic p
      | Return (rr, err) \<Rightarrow>
          if err \<noteq> None then Return (None, err)
          else Return (MaxResourceList
                         (ResourceListForRoles rr (RuntimeRoles c))
                         (ResourceListForRoles rr [InitPodRole]), None))"

definition AppResourceLimits ::
  "ResourceCalculatorFuncs \<Rightarrow> obj \<Rightarrow> (ResourceList \<times> error option) outcome" where
  "AppResourceLimits c obj =
     (case RoleResourceLimits c obj of
        Panic p \<Rightarrow> Panic p
      | Return (rr, err) \<Rightarrow>
          if err \<noteq> None then Return (None, err)
          else Return (ResourceListForRoles rr (AppRoles c), None))"

definition AppResourceRequests ::
  "ResourceCalculatorFuncs \<Rightarrow> obj \<Rightarrow> (ResourceList \<times> error option) outcome" where
  "AppResourceRequests c obj =
     (case RoleResourceRequests c obj of
        Panic p \<Rightarrow> Panic p
      | Return (rr, err) \<Rightarrow>
          if err \<noteq> None then Return (None, err)
          else Return (ResourceListForRoles rr (AppRoles c), None))"

section \<open>A converter for the examples\<close>

text \<open>
  The examples below run the extraction functions on concrete documents, with the
  following instance of the library's converter. It decodes the fields of the records
  above the way the library does: an absent or \<^verbatim>\<open>nil\<close> field leaves the zero value of the
  target, a struct or a map is restored from a map only, and a quantity is read from a
  number or a string. \<open>plainQuantity\<close> covers the notations that occur in the examples,
  an unsigned run of decimal digits with one of the suffixes \<^verbatim>\<open>m\<close>, \<^verbatim>\<open>k\<close>, \<^verbatim>\<open>M\<close>, \<^verbatim>\<open>G\<close>,
  \<^verbatim>\<open>Ki\<close>, \<^verbatim>\<open>Mi\<close>, \<^verbatim>\<open>Gi\<close> or none; the library's grammar is larger.
\<close>

definition isDigit :: "char \<Rightarrow> bool" where
  "isDigit c = (48 \<le> (of_char c :: nat) \<and> (of_char c :: nat) \<le> 57)"

fun digitsValue :: "string \<Rightarrow> nat \<Rightarrow> nat" where
  "digitsValue [] acc = acc"
| "digitsValue (c # cs) acc = digitsValue cs (10 * acc + (of_char c - 48))"

definition suffixScale :: "string \<Rightarrow> rat option" where
  "suffixScale s =
     (if s = [] then Some 1
      else if s = ''m'' then Some (1 / 1000)
      else if s = ''k'' then Some 1000
      else if s = ''M'' then Some 1000000
      else if s = ''G'' then Some 1000000000
      else if s = ''Ki'' then Some 1024
      else if s = ''Mi'' then Some 1048576
      else if s = ''Gi'' then Some 1073741824
      else None)"

definition plainQuantity :: "string \<Rightarrow> Quantity option" where
  "plainQuantity s =
     (let digits = takeWhile isDigit s
      in if digits = [] then None
         else (case suffixScale (dropWhile isDigit s) of
                 None \<Rightarrow> None
               | Some scale \<Rightarrow> Some (of_nat (digitsValue digits 0) * scale)))"

definition quantityFromUnstructured :: "val \<Rightarrow> error + Quantity" where
  "quantityFromUnstructured v =
     (case v of
        VNil \<Rightarrow> Inr 0
      | VInt n \<Rightarrow> Inr (of_int (sint n))
      | VString s \<Rightarrow>
          (case plainQuantity s of
             None \<Rightarrow> Inl (ConvertError ''quantity'')
           | Some q \<Rightarrow> Inr q)
      | _ \<Rightarrow> Inl (ConvertError ''quantity''))"

fun quantitiesFromUnstructured ::
  "(string \<times> val) list \<Rightarrow> error + (ResourceName \<times> Quantity) list" where
  "quantitiesFromUnstructured [] = Inr []"
| "quantitiesFromUnstructured ((name, v) # rest) =
     (case quantityFromUnstructured v of
        Inl err \<Rightarrow> Inl err
      | Inr q \<Rightarrow>
          (case quantitiesFromUnstructured rest of
             Inl err \<Rightarrow> Inl err
           | Inr qs \<Rightarrow> Inr ((name, q) # qs)))"

definition resourceListFromUnstructured :: "val option \<Rightarrow> error + ResourceList" where
  "resourceListFromUnstructured field =
     (case field of
        None \<Rightarrow> Inr None
      | Some VNil \<Rightarrow> Inr None
      | Some (VMap m) \<Rightarrow>
          (case quantitiesFromUnstructured m of
             Inl err \<Rightarrow> Inl err
           | Inr qs \<Rightarrow> Inr (Some (map_of qs)))
      | Some _ \<Rightarrow> Inl (ConvertError ''map''))"

definition requirementsFromUnstructured :: "val option \<Rightarrow> error + ResourceRequirements" where
  "requirementsFromUnstructured field =
     (case field of
        None \<Rightarrow> Inr \<lparr>Limits = None, Requests = None\<rparr>
      | Some VNil \<Rightarrow> Inr \<lparr>Limits = None, Requests = None\<rparr>
      | Some (VMap m) \<Rightarrow>
          (case resourceListFromUnstructured (map_of m ''limits'') of
             Inl err \<Rightarrow> Inl err
           | Inr limits \<Rightarrow>
               (case resourceListFromUnstructured (map_of m ''requests'') of
                  Inl err \<Rightarrow> Inl err
                | Inr requests \<Rightarrow> Inr \<lparr>Limits = limits, Requests = requests\<rparr>))
      | Some _ \<Rightarrow> Inl (ConvertError ''struct''))"

definition containerFromUnstructured :: "obj \<Rightarrow> error + Container" where
  "containerFromUnstructured m =
     (case requirementsFromUnstructured (map_of m ''resources'') of
        Inl err \<Rightarrow> Inl err
      | Inr rr \<Rightarrow> Inr \<lparr>Resources = rr\<rparr>)"

definition claimFromUnstructured :: "val option \<Rightarrow> error + PersistentVolumeClaimSpec" where
  "claimFromUnstructured field =
     (case field of
        None \<Rightarrow> Inr \<lparr>ClaimResources = \<lparr>Limits = None, Requests = None\<rparr>\<rparr>
      | Some VNil \<Rightarrow> Inr \<lparr>ClaimResources = \<lparr>Limits = None, Requests = None\<rparr>\<rparr>
      | Some (VMap m) \<Rightarrow>
          (case requirementsFromUnstructured (map_of m ''resources'') of
             Inl err \<Rightarrow> Inl err
           | Inr rr \<Rightarrow> Inr \<lparr>ClaimResources = rr\<rparr>)
      | Some _ \<Rightarrow> Inl (ConvertError ''struct''))"

definition storageFromUnstructured :: "obj \<Rightarrow> error + PersistentVolumeClaimSpec" where
  "storageFromUnstructured m = claimFromUnstructured (Some (VMap m))"

definition podSpecFromUnstructured :: "val option \<Rightarrow> error + PodSpec" where
  "podSpecFromUnstructured field =
     (case field of
        None \<Rightarrow> Inr \<lparr>PodResources = \<lparr>Limits = None, Requests = None\<rparr>\<rparr>
      | Some VNil \<Rightarrow> Inr \<lparr>PodResources = \<lparr>Limits = None, Requests = None\<rparr>\<rparr>
      | Some (VMap m) \<Rightarrow>
          (case requirementsFromUnstructured (map_of m ''resources'') of
             Inl err \<Rightarrow> Inl err
           | Inr rr \<Rightarrow> Inr \<lparr>PodResources = rr\<rparr>)
      | Some _ \<Rightarrow> Inl (ConvertError ''struct''))"

definition podTemplateFromUnstructured :: "val option \<Rightarrow> error + PodTemplateSpec" where
  "podTemplateFromUnstructured field =
     (case field of
        None \<Rightarrow> Inr \<lparr>Spec = \<lparr>PodResources = \<lparr>Limits = None, Requests = None\<rparr>\<rparr>\<rparr>
      | Some VNil \<Rightarrow> Inr \<lparr>Spec = \<lparr>PodResources = \<lparr>Limits = None, Requests = None\<rparr>\<rparr>\<rparr>
      | Some (VMap m) \<Rightarrow>
          (case podSpecFromUnstructured (map_of m ''spec'') of
             Inl err \<Rightarrow> Inl err
           | Inr spec \<Rightarrow> Inr \<lparr>Spec = spec\<rparr>)
      | Some _ \<Rightarrow> Inl (ConvertError ''struct''))"

definition replicasFromUnstructured :: "val option \<Rightarrow> error + 64 word option" where
  "replicasFromUnstructured field =
     (case field of
        None \<Rightarrow> Inr None
      | Some VNil \<Rightarrow> Inr None
      | Some (VInt n) \<Rightarrow> Inr (Some n)
      | Some _ \<Rightarrow> Inl (ConvertError ''int64''))"

definition appNodeFromUnstructured :: "obj \<Rightarrow> error + AppNode" where
  "appNodeFromUnstructured m =
     (case replicasFromUnstructured (map_of m ''replicas'') of
        Inl err \<Rightarrow> Inl err
      | Inr replicas \<Rightarrow>
          (case podTemplateFromUnstructured (map_of m ''podTemplate'') of
             Inl err \<Rightarrow> Inl err
           | Inr podTemplate \<Rightarrow>
               (case claimFromUnstructured (map_of m ''storage'') of
                  Inl err \<Rightarrow> Inl err
                | Inr storage \<Rightarrow>
                    Inr \<lparr>Replicas = replicas, PodTemplate = podTemplate,
                         StorageClaim = storage\<rparr>)))"

section \<open>The arithmetic in the words of the specification\<close>

text \<open>
  The specification describes a resource list by its quantity per resource kind, where
  a missing kind counts as zero, and lets every operation omit the kinds whose result
  is zero. \<open>omitZero f\<close> is the resource list of the quantities \<open>f\<close> over the kinds cpu,
  memory and storage; \<open>sumForRoles rr roles name\<close> is the sum over the roles.
\<close>

definition omitZero :: "(ResourceName \<Rightarrow> Quantity) \<Rightarrow> ResourceList" where
  "omitZero f =
     Some (\<lambda>name. if name = ResourceCPU \<or> name = ResourceMemory \<or> name = ResourceStorage
                   then (if f name = 0 then None else Some (f name))
                   else None)"

definition sumForRoles :: "RoleResourceList \<Rightarrow> PodRole list \<Rightarrow> ResourceName \<Rightarrow> Quantity" where
  "sumForRoles rr roles name = (\<Sum>role\<leftarrow>roles. Name (resourcesAt rr role) name)"

text \<open>
  \<open>milliExact q\<close>: the quantity is a whole, non-negative number of thousandths that an
  \<^verbatim>\<open>int64\<close> holds, so that \<open>MilliValue\<close> loses nothing.
\<close>

definition milliExact :: "Quantity \<Rightarrow> bool" where
  "milliExact q = (0 \<le> q \<and> q * 1000 < 2 ^ 63 \<and> of_int \<lceil>q * 1000\<rceil> = q * 1000)"

text \<open>
  \<open>milliRange q\<close>: the quantity is not negative and its number of thousandths, rounded
  up, is at most the greatest \<^verbatim>\<open>int64\<close>.
\<close>

definition milliRange :: "Quantity \<Rightarrow> bool" where
  "milliRange q = (0 \<le> q \<and> q * 1000 \<le> 2 ^ 63 - 1)"

text \<open>
  \<open>objects containers\<close> are the object-shaped entries of an array, in order, and
  \<open>selected FromUnstructured fn m\<close> is the resource list that \<open>fn\<close> selects from the
  decoded entry \<open>m\<close>.
\<close>

fun objects :: "val list \<Rightarrow> obj list" where
  "objects [] = []"
| "objects (VMap m # vs) = m # objects vs"
| "objects (_ # vs) = objects vs"

definition selected ::
  "(obj \<Rightarrow> error + Container) \<Rightarrow> (ResourceRequirements \<Rightarrow> ResourceList) \<Rightarrow> obj \<Rightarrow>
   ResourceList" where
  "selected FromUnstructured fn m =
     (case FromUnstructured m of Inl err \<Rightarrow> None | Inr c \<Rightarrow> fn (Resources c))"

text \<open>
  \<open>firstError FromUnstructured ms\<close> is the decode error of the first of the maps \<open>ms\<close>
  that does not decode, if there is one.
\<close>

fun firstError :: "(obj \<Rightarrow> error + Container) \<Rightarrow> obj list \<Rightarrow> error option" where
  "firstError FromUnstructured [] = None"
| "firstError FromUnstructured (m # ms) =
     (case FromUnstructured m of
        Inl err \<Rightarrow> Some err
      | Inr c \<Rightarrow> firstError FromUnstructured ms)"

text \<open>
  \<open>absent v fields\<close>: walking from \<open>v\<close> through nested maps, some key of the path is
  missing.
\<close>

fun absent :: "val \<Rightarrow> string list \<Rightarrow> bool" where
  "absent v [] = False"
| "absent (VMap m) (field # fields') =
     (case map_of m field of None \<Rightarrow> True | Some v \<Rightarrow> absent v fields')"
| "absent _ (field # fields') = False"

section \<open>Example documents and calculators\<close>

text \<open>
  A standalone database whose pod template requests cpu, memory and (unusually) storage,
  with a storage claim of \<^verbatim>\<open>10Gi\<close>; it sets no limits and no replica count:
  \<^verbatim>\<open>
  spec:
    podTemplate: {spec: {resources: {requests: {cpu: 500m, memory: 1Gi, storage: 1Gi}}}}
    storage: {resources: {requests: {storage: 10Gi}}}
  \<close>
\<close>

definition standaloneSpec :: obj where
  "standaloneSpec =
     [(''podTemplate'', VMap [(''spec'', VMap [(''resources'', VMap [(''requests'',
          VMap [(''cpu'', VString ''500m''), (''memory'', VString ''1Gi''),
                (''storage'', VString ''1Gi'')])])])]),
      (''storage'', VMap [(''resources'', VMap [(''requests'',
          VMap [(''storage'', VString ''10Gi'')])])])]"

definition standaloneDocument :: obj where
  "standaloneDocument = [(''spec'', VMap standaloneSpec)]"

definition standaloneNode :: AppNode where
  "standaloneNode =
     \<lparr>Replicas = None,
      PodTemplate = \<lparr>Spec = \<lparr>PodResources =
        \<lparr>Limits = None,
         Requests = Some (map_of [(''cpu'', 1 / 2), (''memory'', 1073741824),
                                  (''storage'', 1073741824)])\<rparr>\<rparr>\<rparr>,
      StorageClaim = \<lparr>ClaimResources =
        \<lparr>Limits = None, Requests = Some (map_of [(''storage'', 10737418240)])\<rparr>\<rparr>\<rparr>"

text \<open>
  Three replicas with cpu and memory limits and no storage claim:
  \<^verbatim>\<open>
  spec:
    replicas: 3
    podTemplate: {spec: {resources: {limits: {cpu: 500m, memory: 1Gi}}}}
  \<close>
\<close>

definition diskLessSpec :: obj where
  "diskLessSpec =
     [(''replicas'', VInt 3),
      (''podTemplate'', VMap [(''spec'', VMap [(''resources'', VMap [(''limits'',
          VMap [(''cpu'', VString ''500m''), (''memory'', VString ''1Gi'')])])])])]"

definition diskLessDocument :: obj where
  "diskLessDocument = [(''spec'', VMap diskLessSpec)]"

definition diskLessNode :: AppNode where
  "diskLessNode =
     \<lparr>Replicas = Some 3,
      PodTemplate = \<lparr>Spec = \<lparr>PodResources =
        \<lparr>Limits = Some (map_of [(''cpu'', 1 / 2), (''memory'', 1073741824)]),
         Requests = None\<rparr>\<rparr>\<rparr>,
      StorageClaim = \<lparr>ClaimResources = \<lparr>Limits = None, Requests = None\<rparr>\<rparr>\<rparr>"

text \<open>
  A document whose sub-documents are scalars where objects are expected:
  \<^verbatim>\<open>
  spec:
    monitor: {prometheus: enabled}
    storage: 10Gi
    shardTopology: {shard: 3}
  \<close>
\<close>

definition malformedDocument :: obj where
  "malformedDocument =
     [(''spec'', VMap [(''monitor'', VMap [(''prometheus'', VString ''enabled'')]),
                       (''storage'', VString ''10Gi''),
                       (''shardTopology'', VMap [(''shard'', VInt 3)])])]"

text \<open>
  A container array with two containers, a string and a \<^verbatim>\<open>null\<close> between them:
  \<^verbatim>\<open>
  spec:
    name: demo
    containers:
    - resources: {limits: {cpu: 500m}}
    - sidecar
    - null
    - resources: {limits: {cpu: 1, memory: 1Gi}}
  \<close>
\<close>

definition podContainers :: "val list" where
  "podContainers =
     [VMap [(''resources'', VMap [(''limits'', VMap [(''cpu'', VString ''500m'')])])],
      VString ''sidecar'',
      VNil,
      VMap [(''resources'', VMap [(''limits'',
          VMap [(''cpu'', VInt 1), (''memory'', VString ''1Gi'')])])]]"

definition podDocument :: obj where
  "podDocument =
     [(''spec'', VMap [(''name'', VString ''demo''), (''containers'', VSlice podContainers)])]"

text \<open>
  The same array with a third container whose \<^verbatim>\<open>resources\<close> is a string:
  \<^verbatim>\<open>
  spec:
    containers:
    - resources: {limits: {cpu: 500m}}
    - sidecar
    - null
    - resources: {limits: {cpu: 1, memory: 1Gi}}
    - resources: none
  \<close>
\<close>

definition brokenDocument :: obj where
  "brokenDocument =
     [(''spec'', VMap [(''containers'',
         VSlice (podContainers @ [VMap [(''resources'', VString ''none'')]]))])]"

text \<open>
  A calculator shaped like the Redis plugin (\<^verbatim>\<open>AppRoles\<close> is the default role,
  \<^verbatim>\<open>RuntimeRoles\<close> adds the exporter) whose plugin functions return fixed maps, and one
  shaped like the MongoDB plugin in sharded mode.
\<close>

definition fixedRoleResources :: RoleResourceList where
  "fixedRoleResources =
     [''default'' \<mapsto> Some [ResourceCPU \<mapsto> 3 / 2, ResourceMemory \<mapsto> 3221225472],
      ''exporter'' \<mapsto> Some [ResourceCPU \<mapsto> 3 / 10],
      ''init'' \<mapsto> Some [ResourceCPU \<mapsto> 2, ResourceMemory \<mapsto> 268435456]]"

definition fixedCalculator :: ResourceCalculatorFuncs where
  "fixedCalculator =
     \<lparr>AppRoles = [''default''],
      RuntimeRoles = [''default'', ''exporter''],
      RoleReplicasFn = Some (\<lambda>obj. Return ([''default'' \<mapsto> 3], None)),
      ModeFn = None,
      RoleResourceLimitsFn = Some (\<lambda>obj. Return (fixedRoleResources, None)),
      RoleResourceRequestsFn = Some (\<lambda>obj. Return (fixedRoleResources, None))\<rparr>"

definition shardedReplicas :: ReplicaList where
  "shardedReplicas =
     [''total-shard'' \<mapsto> 6, ''shard'' \<mapsto> 2, ''per-shard'' \<mapsto> 3, ''config-server'' \<mapsto> 3,
      ''mongos'' \<mapsto> 2]"

definition shardedCalculator :: ResourceCalculatorFuncs where
  "shardedCalculator =
     \<lparr>AppRoles = [''default'', ''total-shard'', ''config-server'', ''mongos''],
      RuntimeRoles = [''default'', ''total-shard'', ''config-server'', ''mongos'', ''exporter''],
      RoleReplicasFn = Some (\<lambda>obj. Return (shardedReplicas, None)),
      ModeFn = None,
      RoleResourceLimitsFn = None,
      RoleResourceRequestsFn = None\<rparr>"

definition mixedList :: ResourceList where
  "mixedList =
     Some [ResourceCPU \<mapsto> 1 / 2, ResourceMemory \<mapsto> 1073741824, ''ephemeral-storage'' \<mapsto> 5]"

section \<open>Lemmas on the arithmetic\<close>

lemma three_entries:
  assumes "f ResourceCPU = a" and "f ResourceMemory = b" and "f ResourceStorage = c"
  shows "Some (if c \<noteq> 0
               then (if b \<noteq> 0
                     then (if a \<noteq> 0 then Map.empty(ResourceCPU \<mapsto> a) else Map.empty)
                            (ResourceMemory \<mapsto> b)
                     else if a \<noteq> 0 then Map.empty(ResourceCPU \<mapsto> a) else Map.empty)
                      (ResourceStorage \<mapsto> c)
               else if b \<noteq> 0
                    then (if a \<noteq> 0 then Map.empty(ResourceCPU \<mapsto> a) else Map.empty)
                           (ResourceMemory \<mapsto> b)
                    else if a \<noteq> 0 then Map.empty(ResourceCPU \<mapsto> a) else Map.empty) =
         omitZero f"
proof -
  have "(if c \<noteq> 0
         then (if b \<noteq> 0
               then (if a \<noteq> 0 then Map.empty(ResourceCPU \<mapsto> a) else Map.empty)
                      (ResourceMemory \<mapsto> b)
               else if a \<noteq> 0 then Map.empty(ResourceCPU \<mapsto> a) else Map.empty)
                (ResourceStorage \<mapsto> c)
         else if b \<noteq> 0
              then (if a \<noteq> 0 then Map.empty(ResourceCPU \<mapsto> a) else Map.empty)
                     (ResourceMemory \<mapsto> b)
              else if a \<noteq> 0 then Map.empty(ResourceCPU \<mapsto> a) else Map.empty) name =
        (if name = ResourceCPU \<or> name = ResourceMemory \<or> name = ResourceStorage
         then (if f name = 0 then None else Some (f name))
         else None)" for name
    using assms by (cases "a = 0"; cases "b = 0"; cases "c = 0"; simp)
  then show ?thesis
    unfolding omitZero_def by blast
qed

lemma Name_omitZero:
  "Name (omitZero f) name =
     (if name = ResourceCPU \<or> name = ResourceMemory \<or> name = ResourceStorage
      then f name else 0)"
  by (simp add: Name_def omitZero_def)

lemma entry_omitZero:
  "entry (omitZero f) name =
     (if name = ResourceCPU \<or> name = ResourceMemory \<or> name = ResourceStorage
      then (if f name = 0 then None else Some (f name)) else None)"
  by (simp add: entry_def omitZero_def)

lemma omitZero_cong:
  "f ResourceCPU = g ResourceCPU \<Longrightarrow> f ResourceMemory = g ResourceMemory \<Longrightarrow>
   f ResourceStorage = g ResourceStorage \<Longrightarrow> omitZero f = omitZero g"
  unfolding omitZero_def by (simp add: fun_eq_iff)

lemma empty_omitZero: "Some Map.empty = omitZero (\<lambda>name. 0)"
  by (simp add: omitZero_def)

lemma addRoles_sum:
  "addRoles rr roles (cpu, memory, storage) =
     (cpu + sumForRoles rr roles ResourceCPU,
      memory + sumForRoles rr roles ResourceMemory,
      storage + sumForRoles rr roles ResourceStorage)"
  by (induction roles arbitrary: cpu memory storage)
     (simp_all add: sumForRoles_def Cpu_def Memory_def Storage_def Let_def add.assoc)

lemma AddResourceList_omitZero:
  "AddResourceList x y = omitZero (\<lambda>name. Name x name + Name y name)"
  unfolding AddResourceList_def Let_def IsZero_def
  by (rule three_entries) (simp_all add: Cpu_def Memory_def Storage_def)

lemma MaxResourceList_omitZero:
  "MaxResourceList x y = omitZero (\<lambda>name. max (Name x name) (Name y name))"
  unfolding MaxResourceList_def Let_def IsZero_def
  by (rule three_entries) (simp_all add: Cpu_def Memory_def Storage_def Cmp_def max_def)

lemma ResourceListForRoles_omitZero:
  "ResourceListForRoles rr roles = omitZero (sumForRoles rr roles)"
  unfolding ResourceListForRoles_def addRoles_sum Let_def IsZero_def prod.case
  by (rule three_entries) simp_all

lemma Max_of_role_sums:
  "MaxResourceList (ResourceListForRoles rr runtime) (ResourceListForRoles rr [init]) =
   omitZero (\<lambda>name. max (sumForRoles rr runtime name) (sumForRoles rr [init] name))"
  unfolding MaxResourceList_omitZero ResourceListForRoles_omitZero
  by (rule omitZero_cong) (simp_all add: Name_omitZero)

lemma SetMilli_eq_0: "SetMilli v = 0 \<longleftrightarrow> v = 0"
  by (simp add: SetMilli_def signed_eq_0_iff)

lemma entry_MulResourceList:
  "entry (MulResourceList x n) name =
     (if (name = ResourceCPU \<or> name = ResourceMemory \<or> name = ResourceStorage) \<and>
         Name x name \<noteq> 0
      then Some (SetMilli (MilliValue (Name x name) * n)) else None)"
  unfolding MulResourceList_def Let_def IsZero_def Cpu_def Memory_def Storage_def entry_def
  by (cases "Name x ResourceCPU = 0"; cases "Name x ResourceMemory = 0";
      cases "Name x ResourceStorage = 0"; auto)

lemma SetMilli_MilliValue:
  assumes "milliExact q"
  shows "SetMilli (MilliValue q) = q"
proof -
  define k where "k = \<lceil>q * 1000\<rceil>"
  have exact: "of_int k = q * 1000"
    using assms unfolding milliExact_def k_def by simp
  have "0 \<le> q * 1000" "q * 1000 < 2 ^ 63"
    using assms unfolding milliExact_def by simp_all
  then have "(0::rat) \<le> of_int k" "(of_int k :: rat) < 2 ^ 63"
    unfolding exact by simp_all
  then have k: "0 \<le> k" "k < 2 ^ 63"
    by (simp_all only: of_int_0_le_iff of_int_less_numeral_power_cancel_iff)
  have "sint (word_of_int k :: 64 word) = signed_take_bit 63 k"
    by (simp only: sint_sbintrunc', simp)
  also have "\<dots> = k"
    using k by (simp add: signed_take_bit_int_eq_self)
  finally have "sint (word_of_int k :: 64 word) = k" .
  moreover have "\<not> q < 0"
    using assms unfolding milliExact_def by simp
  ultimately show ?thesis
    using exact by (simp add: SetMilli_def MilliValue_def k_def [symmetric])
qed

lemma MilliValue_in_range:
  "milliRange q \<Longrightarrow> MilliValue q = word_of_int \<lceil>q * 1000\<rceil>"
  by (simp add: milliRange_def MilliValue_def)

lemma MilliValue_tenth_of_milli: "MilliValue (1 / 10000) = 1"
proof -
  have "\<lceil>(1::rat) / 10000 * 1000\<rceil> = 1"
    by (rule ceiling_unique) simp_all
  moreover have "\<not> (1::rat) / 10000 < 0"
    by simp
  ultimately show ?thesis
    by (simp only: MilliValue_def if_False, simp)
qed

section \<open>Lemmas on the loops\<close>

lemma countRoles_sum:
  "countRoles replicas roles cnt = cnt + (\<Sum>role\<leftarrow>roles. replicasAt replicas role)"
  by (induction roles arbitrary: cnt) (simp_all add: add.assoc)

lemma sum_list_word_of_int:
  "(\<Sum>x\<leftarrow>xs. (f x :: 64 word)) = word_of_int (\<Sum>x\<leftarrow>xs. sint (f x))"
  by (induction xs) simp_all

lemma sint_sum_list_in_range:
  assumes "- (2 ^ 63) \<le> (\<Sum>x\<leftarrow>xs. sint (f x :: 64 word))"
    and "(\<Sum>x\<leftarrow>xs. sint (f x)) < 2 ^ 63"
  shows "sint (\<Sum>x\<leftarrow>xs. f x) = (\<Sum>x\<leftarrow>xs. sint (f x))"
proof -
  have "sint (\<Sum>x\<leftarrow>xs. f x) = signed_take_bit 63 (\<Sum>x\<leftarrow>xs. sint (f x))"
    by (subst sum_list_word_of_int) (simp only: sint_sbintrunc', simp)
  also have "\<dots> = (\<Sum>x\<leftarrow>xs. sint (f x))"
    using assms by (simp add: signed_take_bit_int_eq_self)
  finally show ?thesis .
qed

lemma aggregateContainers_sum:
  "aggregateContainers FromUnstructured fn AddResourceList containers (omitZero f) =
     (case firstError FromUnstructured (objects containers) of
        None \<Rightarrow>
          (omitZero (\<lambda>name. f name +
             (\<Sum>m\<leftarrow>objects containers. Name (selected FromUnstructured fn m) name)), None)
      | Some err \<Rightarrow> (None, Some (FailedToParse ''container'' err)))"
proof (induction containers arbitrary: f rule: objects.induct)
  case 1
  then show ?case by simp
next
  case (2 m vs)
  show ?case
  proof (cases "FromUnstructured m")
    case (Inl err)
    then show ?thesis by simp
  next
    case (Inr c)
    have step: "AddResourceList (omitZero f) (fn (Resources c)) =
        omitZero (\<lambda>name. f name + Name (fn (Resources c)) name)"
      unfolding AddResourceList_omitZero
      by (rule omitZero_cong) (simp_all add: Name_omitZero)
    have "aggregateContainers FromUnstructured fn AddResourceList (VMap m # vs) (omitZero f) =
        aggregateContainers FromUnstructured fn AddResourceList vs
          (omitZero (\<lambda>name. f name + Name (fn (Resources c)) name))"
      by (simp add: Inr step)
    also have "\<dots> =
        (case firstError FromUnstructured (objects vs) of
           None \<Rightarrow>
             (omitZero (\<lambda>name. (f name + Name (fn (Resources c)) name) +
                (\<Sum>m\<leftarrow>objects vs. Name (selected FromUnstructured fn m) name)), None)
         | Some err \<Rightarrow> (None, Some (FailedToParse ''container'' err)))"
      by (rule "2.IH")
    finally show ?thesis
      by (simp add: selected_def Inr add.assoc split: option.splits)
  qed
qed (simp_all split: option.splits)

lemma nestedField_absent:
  "absent v fields' \<Longrightarrow> nestedField passed v fields' = (VNil, False, None)"
  by (induction v fields' arbitrary: passed rule: absent.induct) (auto split: option.splits)

section \<open>The extraction functions on malformed documents\<close>

text \<open>
  C1. The claim is that \<open>ContainerResources\<close>, \<open>StorageResources\<close> and
  \<open>AppNodeResources\<close> never panic, and return a decode error when the value at the
  path is not a map. The three functions assert \<^verbatim>\<open>val.(map[string]interface{})\<close> without
  the \<^verbatim>\<open>ok\<close> result, whereas \<open>AggregateContainerResources\<close> checks its assertion:
  whenever the path resolves to a value that is not a map, each of the three calls
  panics instead of returning an error.
\<close>

theorem extraction_panics_on_non_map:
  assumes "NestedFieldNoCopy obj fields' = (v, True, None)" and "\<forall>m. v \<noteq> VMap m"
  shows "ContainerResources containerOf obj fn fields' = Panic InterfaceConversion \<and>
         StorageResources storageOf obj fn fields' = Panic InterfaceConversion \<and>
         AppNodeResources nodeOf obj fn fields' = Panic InterfaceConversion"
  using assms
  by (cases v)
     (simp_all add: ContainerResources_def StorageResources_def AppNodeResources_def)

text \<open>
  On \<open>malformedDocument\<close> the values at the three paths are a string, a string and a
  number.
\<close>

theorem extraction_panics_on_non_map_witness:
  "NestedFieldNoCopy malformedDocument [''spec'', ''monitor'', ''prometheus''] =
     (VString ''enabled'', True, None) \<and>
   ContainerResources containerFromUnstructured malformedDocument ResourceLimits
     [''spec'', ''monitor'', ''prometheus''] = Panic InterfaceConversion \<and>
   NestedFieldNoCopy malformedDocument [''spec'', ''storage''] =
     (VString ''10Gi'', True, None) \<and>
   StorageResources storageFromUnstructured malformedDocument ResourceRequests
     [''spec'', ''storage''] = Panic InterfaceConversion \<and>
   NestedFieldNoCopy malformedDocument [''spec'', ''shardTopology'', ''shard''] =
     (VInt 3, True, None) \<and>
   AppNodeResources appNodeFromUnstructured malformedDocument ResourceLimits
     [''spec'', ''shardTopology'', ''shard''] = Panic InterfaceConversion"
proof -
  have prometheus: "NestedFieldNoCopy malformedDocument [''spec'', ''monitor'', ''prometheus''] =
      (VString ''enabled'', True, None)"
    by (simp add: NestedFieldNoCopy_def malformedDocument_def)
  have storage: "NestedFieldNoCopy malformedDocument [''spec'', ''storage''] =
      (VString ''10Gi'', True, None)"
    by (simp add: NestedFieldNoCopy_def malformedDocument_def)
  have shard: "NestedFieldNoCopy malformedDocument [''spec'', ''shardTopology'', ''shard''] =
      (VInt 3, True, None)"
    by (simp add: NestedFieldNoCopy_def malformedDocument_def)
  show ?thesis
    using extraction_panics_on_non_map [OF prometheus, of containerFromUnstructured
        ResourceLimits storageFromUnstructured appNodeFromUnstructured]
      extraction_panics_on_non_map [OF storage, of containerFromUnstructured
        ResourceRequests storageFromUnstructured appNodeFromUnstructured]
      extraction_panics_on_non_map [OF shard, of containerFromUnstructured
        ResourceLimits storageFromUnstructured appNodeFromUnstructured]
      prometheus storage shard
    by simp
qed

section \<open>The derived queries of the adapter\<close>

text \<open>
  C2. When the plugin's role resource function returns the map \<open>rr\<close> without an error,
  \<open>TotalResourceLimits\<close> (and likewise \<open>TotalResourceRequests\<close>) returns, per resource
  kind, the greater of the sum of \<open>rr\<close> over the runtime roles and the sum of \<open>rr\<close> over
  the init role, kinds with a zero result omitted.
\<close>

theorem total_is_max_of_runtime_and_init:
  "(RoleResourceLimits c obj = Return (rr, None) \<longrightarrow>
      TotalResourceLimits c obj =
        Return (omitZero (\<lambda>name. max (sumForRoles rr (RuntimeRoles c) name)
                                      (sumForRoles rr [InitPodRole] name)), None)) \<and>
   (RoleResourceRequests c obj = Return (rr', None) \<longrightarrow>
      TotalResourceRequests c obj =
        Return (omitZero (\<lambda>name. max (sumForRoles rr' (RuntimeRoles c) name)
                                      (sumForRoles rr' [InitPodRole] name)), None))"
  by (simp add: TotalResourceLimits_def TotalResourceRequests_def Max_of_role_sums)

theorem total_is_max_of_runtime_and_init_witness:
  "RoleResourceLimits fixedCalculator [] = Return (fixedRoleResources, None) \<and>
   RoleResourceRequests fixedCalculator [] = Return (fixedRoleResources, None) \<and>
   (\<exists>rl. TotalResourceLimits fixedCalculator [] = Return (rl, None) \<and>
      entry rl ResourceCPU = Some 2 \<and> entry rl ResourceMemory = Some 3221225472 \<and>
      entry rl ResourceStorage = None) \<and>
   (\<exists>rl. TotalResourceRequests fixedCalculator [] = Return (rl, None) \<and>
      entry rl ResourceCPU = Some 2 \<and> entry rl ResourceMemory = Some 3221225472 \<and>
      entry rl ResourceStorage = None)"
  using total_is_max_of_runtime_and_init
    [of fixedCalculator "[]" fixedRoleResources fixedRoleResources]
  by (simp add: RoleResourceLimits_def RoleResourceRequests_def fixedCalculator_def
      fixedRoleResources_def entry_omitZero sumForRoles_def resourcesAt_def Name_def
      InitPodRole_def)

text \<open>
  C7. When \<open>RoleReplicas\<close> returns the replica list without an error, \<open>Replicas\<close> returns
  the \<^verbatim>\<open>int64\<close> sum of its entries over the app roles, a role without an entry counting
  zero; the sum is the sum of the integers whenever that fits an \<^verbatim>\<open>int64\<close>.
\<close>

theorem replicas_sum_over_app_roles:
  assumes "RoleReplicas c obj = Return (replicas, None)"
  shows "ReplicasTotal c obj =
           Return (\<Sum>role\<leftarrow>AppRoles c. (case replicas role of None \<Rightarrow> 0 | Some n \<Rightarrow> n),
                   None) \<and>
         (- (2 ^ 63) \<le> (\<Sum>role\<leftarrow>AppRoles c.
                          sint (case replicas role of None \<Rightarrow> 0 | Some n \<Rightarrow> n)) \<and>
          (\<Sum>role\<leftarrow>AppRoles c.
             sint (case replicas role of None \<Rightarrow> 0 | Some n \<Rightarrow> n)) < 2 ^ 63 \<longrightarrow>
          (\<exists>cnt. ReplicasTotal c obj = Return (cnt, None) \<and>
             sint cnt = (\<Sum>role\<leftarrow>AppRoles c.
                          sint (case replicas role of None \<Rightarrow> 0 | Some n \<Rightarrow> n))))"
proof -
  have total: "ReplicasTotal c obj =
      Return (\<Sum>role\<leftarrow>AppRoles c. (case replicas role of None \<Rightarrow> 0 | Some n \<Rightarrow> n), None)"
    using assms by (simp add: ReplicasTotal_def countRoles_sum replicasAt_def)
  show ?thesis
    unfolding total by (simp add: sint_sum_list_in_range)
qed

theorem replicas_sum_over_app_roles_witness:
  "RoleReplicas shardedCalculator [] = Return (shardedReplicas, None) \<and>
   ReplicasTotal shardedCalculator [] = Return (11, None) \<and>
   (\<exists>cnt. ReplicasTotal shardedCalculator [] = Return (cnt, None) \<and> sint cnt = 11)"
proof -
  have returned: "RoleReplicas shardedCalculator [] = Return (shardedReplicas, None)"
    by (simp add: RoleReplicas_def shardedCalculator_def)
  have roles: "AppRoles shardedCalculator =
      [''default'', ''total-shard'', ''config-server'', ''mongos'']"
    by (simp add: shardedCalculator_def)
  show ?thesis
    using replicas_sum_over_app_roles [OF returned]
    by (simp add: returned roles shardedReplicas_def)
qed

section \<open>Zero entries\<close>

text \<open>
  C3, amended. \<open>AddResourceList\<close>, \<open>MaxResourceList\<close> and \<open>ResourceListForRoles\<close> never
  produce an entry whose value is zero. \<open>MulResourceList\<close> produces none for a kind that
  its input lacks or holds as zero, and none for a kind whose quantity is in
  \<open>milliRange\<close> and whose number of thousandths, rounded up, has a non-zero \<^verbatim>\<open>int64\<close>
  product with the multiplier. The App Node decoding omits nothing: it returns the
  entries of the selected pod-level list and always sets the storage entry, to the
  storage quantity selected from the claim, which is zero when the claim declares none.
\<close>

theorem zero_entries:
  "entry (AddResourceList x y) name \<noteq> Some 0 \<and>
   entry (MaxResourceList x y) name \<noteq> Some 0 \<and>
   entry (ResourceListForRoles rr roles) name \<noteq> Some 0 \<and>
   (Name x name = 0 \<or>
    milliRange (Name x name) \<and> (word_of_int \<lceil>Name x name * 1000\<rceil> :: 64 word) * n \<noteq> 0 \<longrightarrow>
      entry (MulResourceList x n) name \<noteq> Some 0) \<and>
   (NestedFieldNoCopy obj fields' = (VMap m, True, None) \<and> FromUnstructured m = Inr node \<and>
    fn (PodResources (Spec (PodTemplate node))) = Some entries \<longrightarrow>
      AppNodeResources FromUnstructured obj fn fields' =
        Return (Some (entries(ResourceStorage \<mapsto>
                  Name (fn (ClaimResources (StorageClaim node))) ResourceStorage)),
                (case Replicas node of None \<Rightarrow> 1 | Some count \<Rightarrow> count), None))"
proof -
  have sums: "entry (AddResourceList x y) name \<noteq> Some 0"
    "entry (MaxResourceList x y) name \<noteq> Some 0"
    "entry (ResourceListForRoles rr roles) name \<noteq> Some 0"
    by (simp_all add: AddResourceList_omitZero MaxResourceList_omitZero
        ResourceListForRoles_omitZero entry_omitZero)
  have lacking: "entry (MulResourceList x n) name \<noteq> Some 0" if "Name x name = 0"
    using that by (simp add: entry_MulResourceList)
  have product: "entry (MulResourceList x n) name \<noteq> Some 0"
    if "milliRange (Name x name)"
      and "(word_of_int \<lceil>Name x name * 1000\<rceil> :: 64 word) * n \<noteq> 0"
    using that by (simp add: entry_MulResourceList MilliValue_in_range SetMilli_eq_0)
  have node: "AppNodeResources FromUnstructured obj fn fields' =
        Return (Some (entries(ResourceStorage \<mapsto>
                  Name (fn (ClaimResources (StorageClaim node))) ResourceStorage)),
                (case Replicas node of None \<Rightarrow> 1 | Some count \<Rightarrow> count), None)"
    if "NestedFieldNoCopy obj fields' = (VMap m, True, None)"
      and "FromUnstructured m = Inr node"
      and "fn (PodResources (Spec (PodTemplate node))) = Some entries"
    using that by (simp add: AppNodeResources_def Storage_def)
  from sums lacking product node show ?thesis
    by blast
qed

text \<open>
  The mixed list holds half a cpu and no storage; the diskless document decodes to a
  node with cpu and memory limits.
\<close>

theorem zero_entries_witness:
  "milliRange (Name mixedList ResourceCPU) \<and>
   (word_of_int \<lceil>Name mixedList ResourceCPU * 1000\<rceil> :: 64 word) * 3 \<noteq> 0 \<and>
   entry (MulResourceList mixedList 3) ResourceCPU \<noteq> Some 0 \<and>
   Name mixedList ResourceStorage = 0 \<and>
   entry (MulResourceList mixedList 0) ResourceStorage \<noteq> Some 0 \<and>
   NestedFieldNoCopy diskLessDocument [''spec''] = (VMap diskLessSpec, True, None) \<and>
   appNodeFromUnstructured diskLessSpec = Inr diskLessNode \<and>
   entry (Some ((map_of [(ResourceCPU, 1 / 2), (ResourceMemory, 1073741824)])
            (ResourceStorage \<mapsto> 0))) ResourceStorage = Some 0 \<and>
   AppNodeResources appNodeFromUnstructured diskLessDocument ResourceLimits [''spec''] =
     Return (Some ((map_of [(ResourceCPU, 1 / 2), (ResourceMemory, 1073741824)])
               (ResourceStorage \<mapsto> 0)), 3, None)"
proof -
  have range: "milliRange (Name mixedList ResourceCPU)"
    by (simp add: milliRange_def Name_def mixedList_def)
  have milli: "(word_of_int \<lceil>Name mixedList ResourceCPU * 1000\<rceil> :: 64 word) * 3 \<noteq> 0"
    by (simp add: Name_def mixedList_def)
  have lacking: "Name mixedList ResourceStorage = 0"
    by (simp add: Name_def mixedList_def)
  have found: "NestedFieldNoCopy diskLessDocument [''spec''] = (VMap diskLessSpec, True, None)"
    by (simp add: NestedFieldNoCopy_def diskLessDocument_def)
  have decoded: "appNodeFromUnstructured diskLessSpec = Inr diskLessNode"
    by (simp add: appNodeFromUnstructured_def diskLessSpec_def diskLessNode_def
        replicasFromUnstructured_def podTemplateFromUnstructured_def
        podSpecFromUnstructured_def requirementsFromUnstructured_def
        resourceListFromUnstructured_def quantityFromUnstructured_def plainQuantity_def
        isDigit_def suffixScale_def claimFromUnstructured_def)
  have list: "ResourceLimits (PodResources (Spec (PodTemplate diskLessNode))) =
      Some (map_of [(ResourceCPU, 1 / 2), (ResourceMemory, 1073741824)])"
    by (simp add: ResourceLimits_def diskLessNode_def)
  show ?thesis
    using zero_entries [of mixedList mixedList ResourceCPU Map.empty "[]" 3 diskLessDocument
        "[''spec'']" diskLessSpec appNodeFromUnstructured diskLessNode ResourceLimits
        "map_of [(ResourceCPU, 1 / 2), (ResourceMemory, 1073741824)]"]
      zero_entries [of mixedList mixedList ResourceStorage Map.empty "[]" 0 diskLessDocument
        "[''spec'']" diskLessSpec appNodeFromUnstructured diskLessNode ResourceLimits
        "map_of [(ResourceCPU, 1 / 2), (ResourceMemory, 1073741824)]"]
      range milli lacking found decoded list
    by (simp add: Name_def entry_def ResourceLimits_def diskLessNode_def)
qed

text \<open>
  The diskless document has no storage claim: the decoded list carries the storage
  entry zero. A multiplier of zero leaves a zero entry as well.
\<close>

theorem zero_entries_counterexample:
  "AppNodeResources appNodeFromUnstructured diskLessDocument ResourceLimits [''spec''] =
     Return (Some [ResourceMemory \<mapsto> 1073741824, ResourceCPU \<mapsto> 1 / 2, ResourceStorage \<mapsto> 0],
             3, None) \<and>
   entry (MulResourceList (Some [ResourceMemory \<mapsto> 1073741824]) 0) ResourceMemory = Some 0"
  by (simp add: AppNodeResources_def NestedFieldNoCopy_def diskLessDocument_def
      appNodeFromUnstructured_def diskLessSpec_def
      replicasFromUnstructured_def podTemplateFromUnstructured_def
      podSpecFromUnstructured_def requirementsFromUnstructured_def
      resourceListFromUnstructured_def quantityFromUnstructured_def plainQuantity_def
      isDigit_def suffixScale_def claimFromUnstructured_def ResourceLimits_def Storage_def
      Name_def entry_MulResourceList SetMilli_def)

section \<open>Multiplication\<close>

text \<open>
  C4, amended. For a resource list whose cpu, memory and storage quantities are whole,
  non-negative numbers of milli-units that fit an \<^verbatim>\<open>int64\<close>, \<open>MulResourceList x 1\<close> is
  \<open>x\<close> restricted to its non-zero cpu, memory and storage entries.
\<close>

theorem multiply_by_one:
  assumes "milliExact (Name x ResourceCPU)" and "milliExact (Name x ResourceMemory)"
    and "milliExact (Name x ResourceStorage)"
  shows "MulResourceList x 1 = omitZero (Name x)"
proof -
  have "entry (MulResourceList x 1) name = entry (omitZero (Name x)) name" for name
    unfolding entry_MulResourceList entry_omitZero
    using assms by (auto simp: SetMilli_MilliValue)
  moreover have "\<exists>m. MulResourceList x 1 = Some m" "\<exists>m. omitZero (Name x) = Some m"
    by (simp_all add: MulResourceList_def omitZero_def Let_def)
  ultimately show ?thesis
    by (auto simp: entry_def fun_eq_iff)
qed

theorem multiply_by_one_witness:
  "milliExact (Name mixedList ResourceCPU) \<and> milliExact (Name mixedList ResourceMemory) \<and>
   milliExact (Name mixedList ResourceStorage) \<and>
   MulResourceList mixedList 1 = omitZero (Name mixedList) \<and>
   entry (omitZero (Name mixedList)) ResourceCPU = Some (1 / 2) \<and>
   entry (omitZero (Name mixedList)) ResourceMemory = Some 1073741824 \<and>
   entry (omitZero (Name mixedList)) ResourceStorage = None \<and>
   entry (omitZero (Name mixedList)) ''ephemeral-storage'' = None"
proof -
  have cpu: "milliExact (Name mixedList ResourceCPU)"
    by (simp add: milliExact_def Name_def mixedList_def)
  have memory: "milliExact (Name mixedList ResourceMemory)"
    by (simp add: milliExact_def Name_def mixedList_def)
  have storage: "milliExact (Name mixedList ResourceStorage)"
    by (simp add: milliExact_def Name_def mixedList_def)
  show ?thesis
    using multiply_by_one [OF cpu memory storage] cpu memory storage
    by (simp add: entry_omitZero) (simp add: Name_def mixedList_def)
qed

text \<open>
  A tenth of a milli-unit of cpu (\<^verbatim>\<open>100u\<close>) is rounded up to a whole milli-unit by the
  multiplication with 1, and the multiplication of one cpu with 0 leaves the entry
  zero instead of the empty list.
\<close>

theorem multiply_by_one_counterexample:
  "entry (Some [ResourceCPU \<mapsto> 1 / 10000]) ResourceCPU = Some (1 / 10000) \<and>
   entry (MulResourceList (Some [ResourceCPU \<mapsto> 1 / 10000]) 1) ResourceCPU = Some (1 / 1000) \<and>
   entry (MulResourceList (Some [ResourceCPU \<mapsto> 1]) 0) ResourceCPU = Some 0"
  by (simp add: entry_MulResourceList) (simp add: entry_def Name_def MilliValue_tenth_of_milli
      SetMilli_def)

section \<open>The App Node decoding\<close>

text \<open>
  C5. When the sub-document at the path decodes to a node whose selected pod-level list
  declares the storage quantity \<open>X\<close> and whose selected storage-claim list declares the
  storage quantity \<open>Y\<close>, \<open>AppNodeResources\<close> returns without an error a list whose storage
  entry is \<open>Y\<close>.
\<close>

theorem storage_overlay:
  assumes "NestedFieldNoCopy obj fields' = (VMap m, True, None)"
    and "FromUnstructured m = Inr node"
    and "entry (fn (PodResources (Spec (PodTemplate node)))) ResourceStorage = Some X"
    and "entry (fn (ClaimResources (StorageClaim node))) ResourceStorage = Some Y"
  shows "\<exists>rl count. AppNodeResources FromUnstructured obj fn fields' = Return (rl, count, None) \<and>
           entry rl ResourceStorage = Some Y"
  using assms
  by (auto simp: AppNodeResources_def entry_def Storage_def Name_def Let_def
      split: option.splits)

theorem storage_overlay_witness:
  "NestedFieldNoCopy standaloneDocument [''spec''] = (VMap standaloneSpec, True, None) \<and>
   appNodeFromUnstructured standaloneSpec = Inr standaloneNode \<and>
   entry (ResourceRequests (PodResources (Spec (PodTemplate standaloneNode)))) ResourceStorage =
     Some 1073741824 \<and>
   entry (ResourceRequests (ClaimResources (StorageClaim standaloneNode))) ResourceStorage =
     Some 10737418240 \<and>
   (\<exists>rl count. AppNodeResources appNodeFromUnstructured standaloneDocument ResourceRequests
        [''spec''] = Return (rl, count, None) \<and>
      entry rl ResourceStorage = Some 10737418240)"
proof -
  have found: "NestedFieldNoCopy standaloneDocument [''spec''] = (VMap standaloneSpec, True, None)"
    by (simp add: NestedFieldNoCopy_def standaloneDocument_def)
  have decoded: "appNodeFromUnstructured standaloneSpec = Inr standaloneNode"
    by (simp add: appNodeFromUnstructured_def standaloneSpec_def standaloneNode_def
        replicasFromUnstructured_def podTemplateFromUnstructured_def
        podSpecFromUnstructured_def requirementsFromUnstructured_def
        resourceListFromUnstructured_def quantityFromUnstructured_def plainQuantity_def
        isDigit_def suffixScale_def claimFromUnstructured_def)
  have pod: "entry (ResourceRequests (PodResources (Spec (PodTemplate standaloneNode))))
      ResourceStorage = Some 1073741824"
    by (simp add: entry_def ResourceRequests_def standaloneNode_def)
  have claim: "entry (ResourceRequests (ClaimResources (StorageClaim standaloneNode)))
      ResourceStorage = Some 10737418240"
    by (simp add: entry_def ResourceRequests_def standaloneNode_def)
  show ?thesis
    using storage_overlay [where FromUnstructured = appNodeFromUnstructured
        and fn = ResourceRequests, OF found decoded pod claim] found decoded pod claim
    by simp
qed

text \<open>
  C6. The claim is that a sub-document that is present, decodes and has no \<^verbatim>\<open>replicas\<close>
  field yields the replica count 1. \<open>AppNodeResources\<close> sets the count to 1 and then
  assigns the storage entry into the selected pod-level list; when the pod template
  declares no such list, that list is the \<^verbatim>\<open>nil\<close> map and the assignment panics, so
  that no replica count is returned.
\<close>

theorem app_node_panics_on_nil_list:
  assumes "NestedFieldNoCopy obj fields' = (VMap m, True, None)"
    and "FromUnstructured m = Inr node"
    and "fn (PodResources (Spec (PodTemplate node))) = None"
  shows "AppNodeResources FromUnstructured obj fn fields' = Panic AssignmentToNilMap"
  using assms by (simp add: AppNodeResources_def)

text \<open>
  The standalone document has no \<^verbatim>\<open>replicas\<close> field and declares requests only, so
  asking for its limits panics.
\<close>

theorem app_node_panics_on_nil_list_witness:
  "map_of standaloneSpec ''replicas'' = None \<and>
   NestedFieldNoCopy standaloneDocument [''spec''] = (VMap standaloneSpec, True, None) \<and>
   appNodeFromUnstructured standaloneSpec = Inr standaloneNode \<and>
   Replicas standaloneNode = None \<and>
   ResourceLimits (PodResources (Spec (PodTemplate standaloneNode))) = None \<and>
   AppNodeResources appNodeFromUnstructured standaloneDocument ResourceLimits [''spec''] =
     Panic AssignmentToNilMap"
proof -
  have found: "NestedFieldNoCopy standaloneDocument [''spec''] = (VMap standaloneSpec, True, None)"
    by (simp add: NestedFieldNoCopy_def standaloneDocument_def)
  have decoded: "appNodeFromUnstructured standaloneSpec = Inr standaloneNode"
    by (simp add: appNodeFromUnstructured_def standaloneSpec_def standaloneNode_def
        replicasFromUnstructured_def podTemplateFromUnstructured_def
        podSpecFromUnstructured_def requirementsFromUnstructured_def
        resourceListFromUnstructured_def quantityFromUnstructured_def plainQuantity_def
        isDigit_def suffixScale_def claimFromUnstructured_def)
  have nil: "ResourceLimits (PodResources (Spec (PodTemplate standaloneNode))) = None"
    by (simp add: ResourceLimits_def standaloneNode_def)
  have replicas: "map_of standaloneSpec ''replicas'' = None" "Replicas standaloneNode = None"
    by (simp_all add: standaloneSpec_def standaloneNode_def)
  show ?thesis
    using app_node_panics_on_nil_list [where FromUnstructured = appNodeFromUnstructured
        and fn = ResourceLimits, OF found decoded nil] found decoded nil replicas
    by simp
qed

text \<open>
  When the selected pod-level list is declared, the default applies and the call
  returns.
\<close>

lemma replicas_default_on_declared_list:
  assumes "NestedFieldNoCopy obj fields' = (VMap m, True, None)"
    and "FromUnstructured m = Inr node"
    and "Replicas node = None"
    and "fn (PodResources (Spec (PodTemplate node))) = Some entries"
  shows "\<exists>rl. AppNodeResources FromUnstructured obj fn fields' = Return (rl, 1, None)"
  using assms by (simp add: AppNodeResources_def)

text \<open>
  C9. When a key of the path is missing from the document, \<open>AppNodeResources\<close> returns
  the \<^verbatim>\<open>nil\<close> list, the replica count 0 and no error.
\<close>

theorem absent_app_node:
  assumes "absent (VMap obj) fields'"
  shows "AppNodeResources FromUnstructured obj fn fields' = Return (None, 0, None)"
  using nestedField_absent [OF assms]
  by (simp add: AppNodeResources_def NestedFieldNoCopy_def)

theorem absent_app_node_witness:
  "absent (VMap standaloneDocument) [''spec'', ''shardTopology'', ''shard''] \<and>
   AppNodeResources appNodeFromUnstructured standaloneDocument ResourceLimits
     [''spec'', ''shardTopology'', ''shard''] = Return (None, 0, None)"
proof -
  have missing: "absent (VMap standaloneDocument) [''spec'', ''shardTopology'', ''shard'']"
    by (simp add: standaloneDocument_def standaloneSpec_def)
  show ?thesis
    using absent_app_node [OF missing] missing by simp
qed

section \<open>Container arrays\<close>

text \<open>
  C8, amended. When the path resolves to an array, \<open>AggregateContainerResources\<close> skips
  the entries that are not object-shaped and decodes the others in order. If they all
  decode, it returns without an error the sum (by \<open>AddResourceList\<close>) of the lists
  selected from them; otherwise it returns no list and the decode error of the first
  object-shaped entry that does not decode. When the path resolves to a value that is
  not an array, it returns the accessor error carrying the path and the value.
\<close>

theorem aggregate_skips_and_sums:
  "(NestedFieldNoCopy obj fields' = (VSlice containers, True, None) \<longrightarrow>
      AggregateContainerResources FromUnstructured obj fn AddResourceList fields' =
        (case firstError FromUnstructured (objects containers) of
           None \<Rightarrow>
             (omitZero (\<lambda>name. \<Sum>m\<leftarrow>objects containers.
                          Name (selected FromUnstructured fn m) name), None)
         | Some err \<Rightarrow> (None, Some (FailedToParse ''container'' err)))) \<and>
   (NestedFieldNoCopy obj fields' = (v, True, None) \<and> (\<forall>containers. v \<noteq> VSlice containers) \<longrightarrow>
      AggregateContainerResources FromUnstructured obj fn aggregate fields' =
        (None, Some (AccessorError fields' v)))"
proof (intro conjI impI)
  assume "NestedFieldNoCopy obj fields' = (VSlice containers, True, None)"
  then have "AggregateContainerResources FromUnstructured obj fn AddResourceList fields' =
      aggregateContainers FromUnstructured fn AddResourceList containers (omitZero (\<lambda>name. 0))"
    by (simp add: AggregateContainerResources_def empty_omitZero)
  then show "AggregateContainerResources FromUnstructured obj fn AddResourceList fields' =
        (case firstError FromUnstructured (objects containers) of
           None \<Rightarrow>
             (omitZero (\<lambda>name. \<Sum>m\<leftarrow>objects containers.
                          Name (selected FromUnstructured fn m) name), None)
         | Some err \<Rightarrow> (None, Some (FailedToParse ''container'' err)))"
    by (simp add: aggregateContainers_sum split: option.splits)
next
  assume "NestedFieldNoCopy obj fields' = (v, True, None) \<and> (\<forall>containers. v \<noteq> VSlice containers)"
  then show "AggregateContainerResources FromUnstructured obj fn aggregate fields' =
        (None, Some (AccessorError fields' v))"
    by (cases v) (simp_all add: AggregateContainerResources_def)
qed

text \<open>
  In the pod document the two containers decode, the string and the \<^verbatim>\<open>null\<close> are
  skipped, and the path to the name resolves to a string.
\<close>

theorem aggregate_skips_and_sums_witness:
  "NestedFieldNoCopy podDocument [''spec'', ''containers''] = (VSlice podContainers, True, None) \<and>
   length podContainers = 4 \<and> length (objects podContainers) = 2 \<and>
   firstError containerFromUnstructured (objects podContainers) = None \<and>
   (\<exists>rl. AggregateContainerResources containerFromUnstructured podDocument ResourceLimits
            AddResourceList [''spec'', ''containers''] = (rl, None) \<and>
      entry rl ResourceCPU = Some (3 / 2) \<and> entry rl ResourceMemory = Some 1073741824 \<and>
      entry rl ResourceStorage = None) \<and>
   NestedFieldNoCopy podDocument [''spec'', ''name''] = (VString ''demo'', True, None) \<and>
   AggregateContainerResources containerFromUnstructured podDocument ResourceLimits
     AddResourceList [''spec'', ''name''] =
       (None, Some (AccessorError [''spec'', ''name''] (VString ''demo'')))"
proof -
  have array: "NestedFieldNoCopy podDocument [''spec'', ''containers''] =
      (VSlice podContainers, True, None)"
    by (simp add: NestedFieldNoCopy_def podDocument_def)
  have first: "containerFromUnstructured
      [(''resources'', VMap [(''limits'', VMap [(''cpu'', VString ''500m'')])])] =
      Inr \<lparr>Resources = \<lparr>Limits = Some (map_of [(''cpu'', 1 / 2)]), Requests = None\<rparr>\<rparr>"
    by (simp add: containerFromUnstructured_def requirementsFromUnstructured_def
        resourceListFromUnstructured_def quantityFromUnstructured_def plainQuantity_def
        isDigit_def suffixScale_def)
  have second: "containerFromUnstructured
      [(''resources'', VMap [(''limits'',
          VMap [(''cpu'', VInt 1), (''memory'', VString ''1Gi'')])])] =
      Inr \<lparr>Resources = \<lparr>Limits = Some (map_of [(''cpu'', 1), (''memory'', 1073741824)]),
                         Requests = None\<rparr>\<rparr>"
    by (simp add: containerFromUnstructured_def requirementsFromUnstructured_def
        resourceListFromUnstructured_def quantityFromUnstructured_def plainQuantity_def
        isDigit_def suffixScale_def)
  have decode: "firstError containerFromUnstructured (objects podContainers) = None"
    by (simp add: podContainers_def first second)
  have scalar: "NestedFieldNoCopy podDocument [''spec'', ''name''] =
      (VString ''demo'', True, None)"
    by (simp add: NestedFieldNoCopy_def podDocument_def)
  have sums: "entry (omitZero (\<lambda>name. \<Sum>m\<leftarrow>objects podContainers.
        Name (selected containerFromUnstructured ResourceLimits m) name)) ResourceCPU = Some (3 / 2)"
    "entry (omitZero (\<lambda>name. \<Sum>m\<leftarrow>objects podContainers.
        Name (selected containerFromUnstructured ResourceLimits m) name)) ResourceMemory =
        Some 1073741824"
    "entry (omitZero (\<lambda>name. \<Sum>m\<leftarrow>objects podContainers.
        Name (selected containerFromUnstructured ResourceLimits m) name)) ResourceStorage = None"
    by (simp_all add: entry_omitZero podContainers_def selected_def first second
        ResourceLimits_def Name_def)
  have lengths: "length podContainers = 4" "length (objects podContainers) = 2"
    by (simp_all add: podContainers_def)
  show ?thesis
    using aggregate_skips_and_sums [of podDocument "[''spec'', ''containers'']" podContainers
        containerFromUnstructured ResourceLimits "VString ''demo''" AddResourceList]
      aggregate_skips_and_sums [of podDocument "[''spec'', ''name'']" podContainers
        containerFromUnstructured ResourceLimits "VString ''demo''" AddResourceList]
      array decode scalar sums lengths
    by simp
qed

text \<open>
  In the broken document the path resolves to an array, yet the call returns the decode
  error of the last container and no sum.
\<close>

theorem aggregate_skips_and_sums_counterexample:
  "NestedFieldNoCopy brokenDocument [''spec'', ''containers''] =
     (VSlice (podContainers @ [VMap [(''resources'', VString ''none'')]]), True, None) \<and>
   AggregateContainerResources containerFromUnstructured brokenDocument ResourceLimits
     AddResourceList [''spec'', ''containers''] =
       (None, Some (FailedToParse ''container'' (ConvertError ''struct'')))"
  by (simp add: AggregateContainerResources_def NestedFieldNoCopy_def brokenDocument_def
      podContainers_def containerFromUnstructured_def requirementsFromUnstructured_def
      resourceListFromUnstructured_def quantityFromUnstructured_def plainQuantity_def
      isDigit_def suffixScale_def ResourceLimits_def)

section \<open>Resource kinds\<close>

text \<open>
  C10. A key other than cpu, memory and storage is absent from the result of
  \<open>AddResourceList\<close>, \<open>MaxResourceList\<close> and \<open>ResourceListForRoles\<close>, whatever the inputs
  contain.
\<close>

theorem only_cpu_memory_storage:
  assumes "name \<noteq> ResourceCPU" and "name \<noteq> ResourceMemory" and "name \<noteq> ResourceStorage"
  shows "entry (AddResourceList x y) name = None \<and>
         entry (MaxResourceList x y) name = None \<and>
         entry (ResourceListForRoles rr roles) name = None"
  using assms
  by (simp add: AddResourceList_omitZero MaxResourceList_omitZero
      ResourceListForRoles_omitZero entry_omitZero)

theorem only_cpu_memory_storage_witness:
  "''ephemeral-storage'' \<noteq> ResourceCPU \<and> ''ephemeral-storage'' \<noteq> ResourceMemory \<and>
   ''ephemeral-storage'' \<noteq> ResourceStorage \<and>
   entry mixedList ''ephemeral-storage'' = Some 5 \<and>
   entry (AddResourceList mixedList mixedList) ''ephemeral-storage'' = None \<and>
   entry (MaxResourceList mixedList mixedList) ''ephemeral-storage'' = None \<and>
   entry (ResourceListForRoles [''default'' \<mapsto> mixedList] [''default''])
     ''ephemeral-storage'' = None"
  using only_cpu_memory_storage [of "''ephemeral-storage''" mixedList mixedList
      "[''default'' \<mapsto> mixedList]" "[''default'']"]
  by (simp add: entry_def mixedList_def)

end
